theory Spec2Isabelle
  imports Complex_Main
begin

section \<open>JavaScript strings\<close>

text \<open>
  A JavaScript string is a sequence of code units; it is modelled as a \<open>string\<close>, one
  \<open>char\<close> for each code unit (so the code units below 256). The operations are the
  methods of \<open>String.prototype\<close> that the extension calls, with the receiver as the first
  argument.
\<close>

definition isWhiteSpace :: "char \<Rightarrow> bool" where
  \<comment> \<open>the white space and line terminators of ECMAScript that are below 256\<close>
  "isWhiteSpace c = (c \<in> set [CHR 0x09, CHR 0x0A, CHR 0x0B, CHR 0x0C, CHR 0x0D, CHR 0x20, CHR 0xA0])"

definition isLineTerminator :: "char \<Rightarrow> bool" where
  \<comment> \<open>what \<open>.\<close> in a regular expression does not match, below 256\<close>
  "isLineTerminator ch = (ch = CHR 0x0A \<or> ch = CHR 0x0D)"

definition trim :: "string \<Rightarrow> string" where
  "trim s = rev (dropWhile isWhiteSpace (rev (dropWhile isWhiteSpace s)))"

definition startsWith :: "string \<Rightarrow> string \<Rightarrow> bool" where
  "startsWith s p = (take (length p) s = p)"

definition endsWith :: "string \<Rightarrow> string \<Rightarrow> bool" where
  "endsWith s p = (length p \<le> length s \<and> drop (length s - length p) s = p)"

fun includesStr :: "string \<Rightarrow> string \<Rightarrow> bool" where
  "includesStr [] p = (p = [])"
| "includesStr (c # cs) p = (startsWith (c # cs) p \<or> includesStr cs p)"

definition slice_1_neg1 :: "string \<Rightarrow> string" where
  \<comment> \<open>\<open>s.slice(1, -1)\<close>\<close>
  "slice_1_neg1 s = butlast (tl s)"

fun split :: "string \<Rightarrow> char \<Rightarrow> string list" where
  \<comment> \<open>\<open>s.split(sep)\<close> for a separator of one code unit\<close>
  "split [] sep = [[]]"
| "split (c # cs) sep =
     (if c = sep then [] # split cs sep
      else (case split cs sep of [] \<Rightarrow> [[c]] | p # ps \<Rightarrow> (c # p) # ps))"

section \<open>The signature extractor (codeParser.ts)\<close>

subsection \<open>What the TypeScript parser hands over\<close>

text \<open>
  \<open>ts.createSourceFile\<close> belongs to the TypeScript compiler, not to the extension. The
  model takes the parser as a parameter and fixes only the shape of what it returns: a
  tree of nodes, each with the attributes that \<open>codeParser.ts\<close> reads, and the list of
  parse diagnostics that the compiler records on the source file. The parser never
  throws on malformed text: it recovers and reports diagnostics.

  A \<open>span\<close> holds what \<open>node.getText(sourceFile)\<close> and
  \<open>sourceFile.getLineAndCharacterOfPosition\<close> of \<open>node.getStart()\<close> and \<open>node.getEnd()\<close>
  return for a node: the text and the two 0-based lines.
\<close>

datatype span = Span (getText: string) (startLineOf: nat) (endLineOf: nat)

datatype modifier = AsyncKeyword | OtherModifier

datatype ParameterDeclaration =
  ParameterDeclaration (paramNameText: string) (paramTypeText: "string option") (questionToken: bool)

datatype signature =
  Signature (sigParameters: "ParameterDeclaration list") (sigType: "string option")
    (sigModifiers: "modifier list")

datatype initializer = ArrowFunction signature | FunctionExpression signature | OtherExpression

datatype VariableDeclaration =
  VariableDeclaration (declNameText: string) (declInitializer: "initializer option") (declSpan: span)

datatype ClassElement =
    Constructor "ParameterDeclaration list"
  | MethodDeclaration string signature span
  | OtherElement

datatype syntaxKind =
    FunctionDeclaration "string option" signature
  | VariableStatement "VariableDeclaration list"
  | ClassDeclaration "string option" "ClassElement list"
  | OtherSyntax

text \<open>
  The third component of a node lists its children in the order in which
  \<open>ts.forEachChild\<close> enumerates them, which is the order of the text.
\<close>

datatype node = Node syntaxKind span "node list"

record SourceFile =
  root :: node
  parseDiagnostics :: "string list"

type_synonym parser = "string \<Rightarrow> string \<Rightarrow> SourceFile"
  \<comment> \<open>file name, then source text\<close>

subsection \<open>Descriptors\<close>

record ParameterInfo =
  paramName :: string
  paramType :: string
  optional :: bool

record FunctionInfo =
  name :: string
  parameters :: "ParameterInfo list"
  returnType :: string
  startLine :: nat
  endLine :: nat
  fullText :: string
  isAsync :: bool
  isClass :: "bool option"
  className :: "string option"

definition parameterInfo :: "ParameterDeclaration \<Rightarrow> ParameterInfo" where
  \<comment> \<open>the arrow function mapped over the parameters in each of the extract functions\<close>
  "parameterInfo p =
     \<lparr>paramName = paramNameText p,
      paramType = (case paramTypeText p of Some t \<Rightarrow> t | None \<Rightarrow> ''any''),
      optional = questionToken p\<rparr>"

definition extractParameters :: "signature \<Rightarrow> ParameterInfo list" where
  "extractParameters sg = map parameterInfo (sigParameters sg)"

definition extractReturnType :: "signature \<Rightarrow> string" where
  "extractReturnType sg = (case sigType sg of Some t \<Rightarrow> t | None \<Rightarrow> ''any'')"

definition hasAsync :: "signature \<Rightarrow> bool" where
  \<comment> \<open>\<open>modifiers?.some(m => m.kind === ts.SyntaxKind.AsyncKeyword) || false\<close>\<close>
  "hasAsync sg = (AsyncKeyword \<in> set (sigModifiers sg))"

definition extractFunctionInfo :: "string option \<Rightarrow> signature \<Rightarrow> span \<Rightarrow> FunctionInfo" where
  "extractFunctionInfo nameNode sg sp =
     \<lparr>name = (case nameNode of None \<Rightarrow> ''anonymous''
              | Some t \<Rightarrow> if t = [] then ''anonymous'' else t),
      parameters = extractParameters sg,
      returnType = extractReturnType sg,
      startLine = startLineOf sp + 1,
      endLine = endLineOf sp + 1,
      fullText = getText sp,
      isAsync = hasAsync sg,
      isClass = None,
      className = None\<rparr>"

definition extractFunctionFromVariable :: "VariableDeclaration \<Rightarrow> FunctionInfo option" where
  "extractFunctionFromVariable d =
     (case declInitializer d of
        None \<Rightarrow> None
      | Some OtherExpression \<Rightarrow> None
      | Some (ArrowFunction sg) \<Rightarrow>
          Some \<lparr>name = declNameText d, parameters = extractParameters sg,
                returnType = extractReturnType sg,
                startLine = startLineOf (declSpan d) + 1, endLine = endLineOf (declSpan d) + 1,
                fullText = getText (declSpan d), isAsync = hasAsync sg,
                isClass = None, className = None\<rparr>
      | Some (FunctionExpression sg) \<Rightarrow>
          Some \<lparr>name = declNameText d, parameters = extractParameters sg,
                returnType = extractReturnType sg,
                startLine = startLineOf (declSpan d) + 1, endLine = endLineOf (declSpan d) + 1,
                fullText = getText (declSpan d), isAsync = hasAsync sg,
                isClass = None, className = None\<rparr>)"

fun findConstructor :: "ClassElement list \<Rightarrow> ParameterDeclaration list option" where
  \<comment> \<open>\<open>node.members.find(m => ts.isConstructorDeclaration(m))\<close>, giving its parameters\<close>
  "findConstructor [] = None"
| "findConstructor (Constructor ps # ms) = Some ps"
| "findConstructor (m # ms) = findConstructor ms"

definition extractClassInfo :: "ClassElement list \<Rightarrow> string \<Rightarrow> span \<Rightarrow> FunctionInfo" where
  "extractClassInfo members cn sp =
     \<lparr>name = cn,
      parameters = (case findConstructor members of Some ps \<Rightarrow> map parameterInfo ps | None \<Rightarrow> []),
      returnType = cn,
      startLine = startLineOf sp + 1,
      endLine = endLineOf sp + 1,
      fullText = getText sp,
      isAsync = False,
      isClass = Some True,
      className = None\<rparr>"

definition extractMethodInfo :: "string \<Rightarrow> signature \<Rightarrow> span \<Rightarrow> string \<Rightarrow> FunctionInfo" where
  "extractMethodInfo nm sg sp cn =
     \<lparr>name = cn @ ''.'' @ nm,
      parameters = map parameterInfo (sigParameters sg),
      returnType = (case sigType sg of Some t \<Rightarrow> t | None \<Rightarrow> ''any''),
      startLine = startLineOf sp + 1,
      endLine = endLineOf sp + 1,
      fullText = getText sp,
      isAsync = hasAsync sg,
      isClass = None,
      className = Some cn\<rparr>"

subsection \<open>The traversal\<close>

text \<open>
  \<open>visit\<close> appends to the array \<open>functions\<close>; the model passes the array along. The two
  \<open>forEach\<close> loops over the declarations of a variable statement and over the members of
  a class are \<open>pushDeclarations\<close> and \<open>pushMethods\<close>.
\<close>

fun pushDeclarations :: "VariableDeclaration list \<Rightarrow> FunctionInfo list \<Rightarrow> FunctionInfo list" where
  "pushDeclarations [] functions = functions"
| "pushDeclarations (d # ds) functions =
     pushDeclarations ds
       (case declInitializer d of
          None \<Rightarrow> functions
        | Some OtherExpression \<Rightarrow> functions
        | Some _ \<Rightarrow> (case extractFunctionFromVariable d of
                      Some funcInfo \<Rightarrow> functions @ [funcInfo]
                    | None \<Rightarrow> functions))"

fun pushMethods :: "ClassElement list \<Rightarrow> string \<Rightarrow> FunctionInfo list \<Rightarrow> FunctionInfo list" where
  "pushMethods [] cn functions = functions"
| "pushMethods (MethodDeclaration nm sg sp # ms) cn functions =
     pushMethods ms cn (functions @ [extractMethodInfo nm sg sp cn])"
| "pushMethods (m # ms) cn functions = pushMethods ms cn functions"

fun visit :: "node \<Rightarrow> FunctionInfo list \<Rightarrow> FunctionInfo list"
  and forEachChild :: "node list \<Rightarrow> FunctionInfo list \<Rightarrow> FunctionInfo list" where
  "visit (Node k sp children) functions =
     forEachChild children
       (case k of
          FunctionDeclaration (Some nm) sg \<Rightarrow> functions @ [extractFunctionInfo (Some nm) sg sp]
        | FunctionDeclaration None sg \<Rightarrow> functions
        | VariableStatement ds \<Rightarrow> pushDeclarations ds functions
        | ClassDeclaration (Some cn) members \<Rightarrow>
            pushMethods members cn (functions @ [extractClassInfo members cn sp])
        | ClassDeclaration None members \<Rightarrow> functions
        | OtherSyntax \<Rightarrow> functions)"
| "forEachChild [] functions = functions"
| "forEachChild (c # cs) functions = forEachChild cs (visit c functions)"

definition fileNameOrDefault :: "string option \<Rightarrow> string" where
  \<comment> \<open>the default value \<open>temp.ts\<close> of the parameter \<open>fileName\<close>\<close>
  "fileNameOrDefault fileName = (case fileName of None \<Rightarrow> ''temp.ts'' | Some f \<Rightarrow> f)"

definition parseFunctions :: "parser \<Rightarrow> string \<Rightarrow> string option \<Rightarrow> FunctionInfo list" where
  "parseFunctions createSourceFile sourceCode fileName =
     visit (root (createSourceFile (fileNameOrDefault fileName) sourceCode)) []"

text \<open>
  \<open>parseFunctions\<close> has no \<open>throw\<close> and no \<open>try\<close>, and it never reads the diagnostics
  of the source file. Its only way to fail is that the call of \<open>ts.createSourceFile\<close>
  throws; then the exception leaves \<open>parseFunctions\<close>, and it is the caller in
  \<open>extension.ts\<close> that catches it. \<open>extractOutcome\<close> is \<open>parseFunctions\<close> for a parser
  whose call either throws (\<open>Inl\<close>) or returns a source file (\<open>Inr\<close>).
\<close>

type_synonym 'e throwingParser = "string \<Rightarrow> string \<Rightarrow> 'e + SourceFile"

definition extractOutcome ::
  "'e throwingParser \<Rightarrow> string \<Rightarrow> string option \<Rightarrow> 'e + FunctionInfo list" where
  "extractOutcome createSourceFile sourceCode fileName =
     (case createSourceFile (fileNameOrDefault fileName) sourceCode of
        Inl thrown \<Rightarrow> Inl thrown
      | Inr sourceFile \<Rightarrow> Inr (visit (root sourceFile) []))"

definition cannotBeParsed :: "SourceFile \<Rightarrow> bool" where
  \<comment> \<open>the compiler reports a syntax error for the text\<close>
  "cannotBeParsed sf = (parseDiagnostics sf \<noteq> [])"

subsection \<open>Notions used to state the properties of the traversal\<close>

text \<open>
  The nodes of a tree in document order, that is in the order in which they start in the
  text: the pre-order of the tree.
\<close>

fun preorder :: "node \<Rightarrow> node list" and preorderList :: "node list \<Rightarrow> node list" where
  "preorder (Node k sp children) = Node k sp children # preorderList children"
| "preorderList [] = []"
| "preorderList (c # cs) = preorder c @ preorderList cs"

fun childrenOf :: "node \<Rightarrow> node list" where
  "childrenOf (Node k sp children) = children"

fun isClassDeclaration :: "node \<Rightarrow> bool" where
  "isClassDeclaration (Node (ClassDeclaration cn members) sp children) = True"
| "isClassDeclaration n = False"

definition containsClass :: "node \<Rightarrow> bool" where
  "containsClass n = list_ex isClassDeclaration (preorder n)"

fun isNamedFunctionDeclaration :: "node \<Rightarrow> bool" where
  "isNamedFunctionDeclaration (Node (FunctionDeclaration (Some nm) sg) sp children) = True"
| "isNamedFunctionDeclaration n = False"

definition topLevelFunctionDeclarations :: "node \<Rightarrow> node list" where
  \<comment> \<open>the named function declarations among the statements of the source file\<close>
  "topLevelFunctionDeclarations r = filter isNamedFunctionDeclaration (childrenOf r)"

fun functionValued :: "VariableDeclaration \<Rightarrow> bool" where
  "functionValued (VariableDeclaration nm (Some (ArrowFunction sg)) sp) = True"
| "functionValued (VariableDeclaration nm (Some (FunctionExpression sg)) sp) = True"
| "functionValued d = False"

text \<open>
  The recognisable function declarations of one node: a named function declaration, or
  the declarations of a variable statement that bind an arrow function or a function
  expression.
\<close>

fun recognized :: "node \<Rightarrow> FunctionInfo list" where
  "recognized (Node (FunctionDeclaration (Some nm) sg) sp children) =
     [extractFunctionInfo (Some nm) sg sp]"
| "recognized (Node (VariableStatement ds) sp children) =
     List.map_filter extractFunctionFromVariable ds"
| "recognized n = []"

text \<open>
  The descriptor of a named function declaration, and the test whether a node is a
  variable statement that binds a function.
\<close>

fun functionDeclarationInfo :: "node \<Rightarrow> FunctionInfo option" where
  "functionDeclarationInfo (Node (FunctionDeclaration (Some nm) sg) sp children) =
     Some (extractFunctionInfo (Some nm) sg sp)"
| "functionDeclarationInfo n = None"

fun bindsFunction :: "node \<Rightarrow> bool" where
  "bindsFunction (Node (VariableStatement ds) sp children) = list_ex functionValued ds"
| "bindsFunction n = False"

fun recognizedCount :: "node \<Rightarrow> nat" where
  "recognizedCount (Node (FunctionDeclaration (Some nm) sg) sp children) = 1"
| "recognizedCount (Node (VariableStatement ds) sp children) = length (filter functionValued ds)"
| "recognizedCount n = 0"

fun methodsOf :: "ClassElement list \<Rightarrow> (string \<times> signature \<times> span) list" where
  "methodsOf [] = []"
| "methodsOf (MethodDeclaration nm sg sp # ms) = (nm, sg, sp) # methodsOf ms"
| "methodsOf (m # ms) = methodsOf ms"

fun isMethodDeclaration :: "ClassElement \<Rightarrow> bool" where
  "isMethodDeclaration (MethodDeclaration nm sg sp) = True"
| "isMethodDeclaration m = False"

text \<open>The descriptors that one node contributes by itself, before its children are visited.\<close>

definition own :: "syntaxKind \<Rightarrow> span \<Rightarrow> FunctionInfo list" where
  "own k sp =
     (case k of
        FunctionDeclaration (Some nm) sg \<Rightarrow> [extractFunctionInfo (Some nm) sg sp]
      | FunctionDeclaration None sg \<Rightarrow> []
      | VariableStatement ds \<Rightarrow> List.map_filter extractFunctionFromVariable ds
      | ClassDeclaration (Some cn) members \<Rightarrow>
          extractClassInfo members cn sp #
            map (\<lambda>(nm, sg, msp). extractMethodInfo nm sg msp cn) (methodsOf members)
      | ClassDeclaration None members \<Rightarrow> []
      | OtherSyntax \<Rightarrow> [])"

fun ownOf :: "node \<Rightarrow> FunctionInfo list" where
  "ownOf (Node k sp children) = own k sp"

subsection \<open>Example source files\<close>

text \<open>
  The trees are the ones the TypeScript parser builds for the texts; a leaf stands for a
  token or identifier.
\<close>

definition leaf :: "string \<Rightarrow> node" where
  "leaf t = Node OtherSyntax (Span t 0 0) []"

definition nestedSource :: string where
  "nestedSource = ''function outer() { function inner() {} }''"

definition nestedRoot :: node where
  "nestedRoot =
     Node OtherSyntax (Span nestedSource 0 0)
       [Node (FunctionDeclaration (Some ''outer'') (Signature [] None []))
          (Span ''function outer() { function inner() {} }'' 0 0)
          [leaf ''outer'',
           Node OtherSyntax (Span ''{ function inner() {} }'' 0 0)
             [Node (FunctionDeclaration (Some ''inner'') (Signature [] None []))
                (Span ''function inner() {}'' 0 0)
                [leaf ''inner'', leaf ''{}'']]],
        leaf []]"

definition nestedParser :: parser where
  "nestedParser fileName sourceCode =
     (if sourceCode = nestedSource then \<lparr>root = nestedRoot, parseDiagnostics = []\<rparr>
      else \<lparr>root = Node OtherSyntax (Span sourceCode 0 0) [leaf []], parseDiagnostics = []\<rparr>)"

text \<open>
  A variable statement with two declarations, the first of which contains a function
  declaration; the text has four lines.
\<close>

definition orderSource :: string where
  "orderSource =
     ''const a = () => {'' @ [CHR 0x0A] @ ''  function inner() {}'' @ [CHR 0x0A] @ ''},''
       @ [CHR 0x0A] @ ''b = () => {};''"

definition orderRoot :: node where
  "orderRoot =
     Node OtherSyntax (Span orderSource 0 3)
       [Node (VariableStatement
                [VariableDeclaration ''a'' (Some (ArrowFunction (Signature [] None [])))
                   (Span (''a = () => {'' @ [CHR 0x0A] @ ''  function inner() {}'' @ [CHR 0x0A] @ ''}'') 0 2),
                 VariableDeclaration ''b'' (Some (ArrowFunction (Signature [] None [])))
                   (Span ''b = () => {}'' 3 3)])
          (Span orderSource 0 3)
          [Node OtherSyntax (Span (butlast orderSource) 0 3)
             [Node OtherSyntax
                (Span (''a = () => {'' @ [CHR 0x0A] @ ''  function inner() {}'' @ [CHR 0x0A] @ ''}'') 0 2)
                [leaf ''a'',
                 Node OtherSyntax
                   (Span (''() => {'' @ [CHR 0x0A] @ ''  function inner() {}'' @ [CHR 0x0A] @ ''}'') 0 2)
                   [leaf ''=>'',
                    Node OtherSyntax
                      (Span (''{'' @ [CHR 0x0A] @ ''  function inner() {}'' @ [CHR 0x0A] @ ''}'') 0 2)
                      [Node (FunctionDeclaration (Some ''inner'') (Signature [] None []))
                         (Span ''function inner() {}'' 1 1)
                         [leaf ''inner'', leaf ''{}'']]]],
              Node OtherSyntax (Span ''b = () => {}'' 3 3)
                [leaf ''b'',
                 Node OtherSyntax (Span ''() => {}'' 3 3) [leaf ''=>'', leaf ''{}'']]]],
        leaf []]"

definition orderParser :: parser where
  "orderParser fileName sourceCode =
     (if sourceCode = orderSource then \<lparr>root = orderRoot, parseDiagnostics = []\<rparr>
      else \<lparr>root = Node OtherSyntax (Span sourceCode 0 0) [leaf []], parseDiagnostics = []\<rparr>)"

definition straySource :: string where
  "straySource = ''function add(a, b) { return a + b; } )''"

definition strayRoot :: node where
  "strayRoot =
     Node OtherSyntax (Span straySource 0 0)
       [Node (FunctionDeclaration (Some ''add'')
                (Signature [ParameterDeclaration ''a'' None False,
                            ParameterDeclaration ''b'' None False] None []))
          (Span ''function add(a, b) { return a + b; }'' 0 0)
          [leaf ''add'',
           Node OtherSyntax (Span ''a'' 0 0) [leaf ''a''],
           Node OtherSyntax (Span ''b'' 0 0) [leaf ''b''],
           Node OtherSyntax (Span ''{ return a + b; }'' 0 0)
             [Node OtherSyntax (Span ''return a + b;'' 0 0)
                [Node OtherSyntax (Span ''a + b'' 0 0) [leaf ''a'', leaf ''+'', leaf ''b'']]]],
        leaf []]"

definition strayParser :: parser where
  "strayParser fileName sourceCode =
     (if sourceCode = straySource
      then \<lparr>root = strayRoot, parseDiagnostics = [''Declaration or statement expected.'']\<rparr>
      else \<lparr>root = Node OtherSyntax (Span sourceCode 0 0) [leaf []], parseDiagnostics = []\<rparr>)"

definition anonymousSource :: string where
  "anonymousSource = ''export default class { constructor(a) {} m() {} }''"

definition anonymousMembers :: "ClassElement list" where
  "anonymousMembers =
     [Constructor [ParameterDeclaration ''a'' None False],
      MethodDeclaration ''m'' (Signature [] None []) (Span ''m() {}'' 0 0)]"

definition anonymousRoot :: node where
  "anonymousRoot =
     Node OtherSyntax (Span anonymousSource 0 0)
       [Node (ClassDeclaration None anonymousMembers) (Span anonymousSource 0 0)
          [leaf ''export'', leaf ''default'',
           Node OtherSyntax (Span ''constructor(a) {}'' 0 0)
             [Node OtherSyntax (Span ''a'' 0 0) [leaf ''a''], leaf ''{}''],
           Node OtherSyntax (Span ''m() {}'' 0 0) [leaf ''m'', leaf ''{}'']],
        leaf []]"

definition anonymousParser :: parser where
  "anonymousParser fileName sourceCode =
     (if sourceCode = anonymousSource then \<lparr>root = anonymousRoot, parseDiagnostics = []\<rparr>
      else \<lparr>root = Node OtherSyntax (Span sourceCode 0 0) [leaf []], parseDiagnostics = []\<rparr>)"

definition userSource :: string where
  "userSource = ''class User { constructor(id: number) {} greet(): string { return this.id; } }''"

definition userMembers :: "ClassElement list" where
  "userMembers =
     [Constructor [ParameterDeclaration ''id'' (Some ''number'') False],
      MethodDeclaration ''greet'' (Signature [] (Some ''string'') [])
        (Span ''greet(): string { return this.id; }'' 0 0)]"

definition userClass :: node where
  "userClass =
     Node (ClassDeclaration (Some ''User'') userMembers) (Span userSource 0 0)
       [leaf ''User'',
        Node OtherSyntax (Span ''constructor(id: number) {}'' 0 0)
          [Node OtherSyntax (Span ''id: number'' 0 0) [leaf ''id'', leaf ''number''], leaf ''{}''],
        Node OtherSyntax (Span ''greet(): string { return this.id; }'' 0 0)
          [leaf ''greet'', leaf ''string'',
           Node OtherSyntax (Span ''{ return this.id; }'' 0 0)
             [Node OtherSyntax (Span ''return this.id;'' 0 0)
                [Node OtherSyntax (Span ''this.id'' 0 0) [leaf ''this'', leaf ''id'']]]]]"

definition userParser :: parser where
  "userParser fileName sourceCode =
     (if sourceCode = userSource
      then \<lparr>root = Node OtherSyntax (Span userSource 0 0) [userClass, leaf []],
            parseDiagnostics = []\<rparr>
      else \<lparr>root = Node OtherSyntax (Span sourceCode 0 0) [leaf []], parseDiagnostics = []\<rparr>)"

section \<open>The execution engine (codeExecutor.ts)\<close>

subsection \<open>JavaScript values\<close>

text \<open>
  Values as far as the engine tells them apart: \<open>typeof\<close>, \<open>Array.isArray\<close>,
  \<open>instanceof Error\<close>, truthiness, and the settlement of a promise. A function value
  carries an identity and its source text (what \<open>Function.prototype.toString\<close> gives for
  it); a promise carries the value it is rejected (\<open>Inl\<close>) or fulfilled (\<open>Inr\<close>) with. A
  number is a real or one of the three special values; no arithmetic is done on numbers by
  the engine.

  An error object carries name, message and stack. \<open>JError\<close> is an error that inherits
  from the \<open>Error\<close> of the extension's realm; this is also what \<open>new Error(...)\<close> gives
  inside a context, since the sandbox hands the extension's own \<open>Error\<close> to the
  context. \<open>JContextError\<close> is an error that the JavaScript engine itself raises inside a
  context, such as the TypeError of a failed property access: it inherits from the
  context's own \<open>Error\<close>, and \<open>instanceof Error\<close> is false for it in the extension.

  The two fixed messages that \<open>serializeResult\<close> puts into the record of a function are
  Chinese text, whose code units are not below 256. They are string values named by
  \<open>JMessage\<close>: \<open>ReturnedFunctionHint\<close> is the text of \<open>_hint\<close> (``a function was returned
  (higher-order function)'') and \<open>WrapperSuggestion\<close> the text of \<open>_suggestion\<close> (a hint
  to write a wrapper function).
\<close>

datatype number = Finite real | NaN | PosInfinity | NegInfinity

datatype fixedMessage = ReturnedFunctionHint | WrapperSuggestion

datatype jsval =
    JUndefined
  | JNull
  | JBool bool
  | JNum number
  | JStr string
  | JArray "jsval list"
  | JObject "(string \<times> jsval) list"
  | JFunction nat string
  | JError string string string
  | JContextError string string string
  | JDate number
  | JPromise "jsval + jsval"
  | JMessage fixedMessage

definition typeofFunction :: "jsval \<Rightarrow> bool" where
  \<comment> \<open>\<open>typeof v === 'function'\<close>\<close>
  "typeofFunction v = (case v of JFunction i src \<Rightarrow> True | _ \<Rightarrow> False)"

definition typeofObject :: "jsval \<Rightarrow> bool" where
  \<comment> \<open>\<open>typeof v === 'object'\<close>, for a value that is not \<open>null\<close>\<close>
  "typeofObject v =
     (case v of JArray xs \<Rightarrow> True | JObject ps \<Rightarrow> True | JError n m st \<Rightarrow> True
      | JContextError n m st \<Rightarrow> True | JDate t \<Rightarrow> True | JPromise r \<Rightarrow> True | _ \<Rightarrow> False)"

definition isArray :: "jsval \<Rightarrow> bool" where
  "isArray v = (case v of JArray xs \<Rightarrow> True | _ \<Rightarrow> False)"

definition elementsOf :: "jsval \<Rightarrow> jsval list" where
  \<comment> \<open>the spread \<open>...v\<close> of an array\<close>
  "elementsOf v = (case v of JArray xs \<Rightarrow> xs | _ \<Rightarrow> [])"

definition truthy :: "jsval \<Rightarrow> bool" where
  "truthy v =
     (case v of JUndefined \<Rightarrow> False | JNull \<Rightarrow> False | JBool b \<Rightarrow> b
      | JNum n \<Rightarrow> n \<noteq> Finite 0 \<and> n \<noteq> NaN | JStr s \<Rightarrow> s \<noteq> [] | _ \<Rightarrow> True)"

definition awaitValue :: "jsval \<Rightarrow> jsval + jsval" where
  \<comment> \<open>\<open>await v\<close>: a rejected promise throws its reason\<close>
  "awaitValue v = (case v of JPromise r \<Rightarrow> r | _ \<Rightarrow> Inr v)"

subsection \<open>Computations that change the state of the JavaScript heap and may throw\<close>

text \<open>
  A computation takes the state and returns the new state together with either the value
  thrown (\<open>Inl\<close>) or the value returned (\<open>Inr\<close>). A call into code that never returns has
  no result in this model; the theorems are about the runs in which every call into the
  host returns or throws.
\<close>

type_synonym ('s, 'a) js = "'s \<Rightarrow> (jsval + 'a) \<times> 's"

definition returns :: "'a \<Rightarrow> ('s, 'a) js" where
  "returns x = (\<lambda>s. (Inr x, s))"

definition completes :: "jsval + 'a \<Rightarrow> ('s, 'a) js" where
  \<comment> \<open>a step that does not touch the state\<close>
  "completes r = (\<lambda>s. (r, s))"

definition andThen :: "('s, 'a) js \<Rightarrow> ('a \<Rightarrow> ('s, 'b) js) \<Rightarrow> ('s, 'b) js" where
  "andThen m f = (\<lambda>s. case m s of (Inl e, s') \<Rightarrow> (Inl e, s') | (Inr x, s') \<Rightarrow> f x s')"

definition tryCatch :: "('s, 'a) js \<Rightarrow> (jsval \<Rightarrow> ('s, 'a) js) \<Rightarrow> ('s, 'a) js" where
  "tryCatch m handler = (\<lambda>s. case m s of (Inl e, s') \<Rightarrow> handler e s' | (Inr x, s') \<Rightarrow> (Inr x, s'))"

fun mapFrom :: "nat \<Rightarrow> ('a \<Rightarrow> nat \<Rightarrow> ('s, 'b) js) \<Rightarrow> 'a list \<Rightarrow> ('s, 'b list) js" where
  \<comment> \<open>\<open>Array.prototype.map\<close> with a callback \<open>(value, index) => ...\<close> that has effects:
      in order, stopping at a throw\<close>
  "mapFrom i f [] = returns []"
| "mapFrom i f (x # xs) =
     andThen (f x i) (\<lambda>y. andThen (mapFrom (Suc i) f xs) (\<lambda>ys. returns (y # ys)))"

definition mapJS :: "('a \<Rightarrow> nat \<Rightarrow> ('s, 'b) js) \<Rightarrow> 'a list \<Rightarrow> ('s, 'b list) js" where
  "mapJS f xs = mapFrom 0 f xs"

definition awaitIf :: "bool \<Rightarrow> ('s, jsval) js \<Rightarrow> ('s, jsval) js" where
  \<comment> \<open>\<open>if (isAsync) result = await call; else result = call\<close>\<close>
  "awaitIf isAsyncFlag m = (if isAsyncFlag then andThen m (\<lambda>v. completes (awaitValue v)) else m)"

subsection \<open>The host: TypeScript compiler, Node's vm module and the JavaScript built-ins\<close>

text \<open>
  The engine hands text to \<open>ts.transpileModule\<close>, to \<open>vm.Script\<close> and to \<open>eval\<close>, and
  calls functions that this text defines. None of this is code of the extension, so the
  model takes it as a parameter: a record of operations over a heap state \<open>'s\<close> and
  context handles \<open>'c\<close>.

  The built-in functions that the engine itself calls (\<open>Number\<close>, \<open>JSON.parse\<close>,
  \<open>JSON.stringify\<close>, \<open>String\<close>, \<open>Date\<close>) are taken as the functions of the language,
  which do not depend on the heap: a tested program that replaces them is outside the
  model.

  A sandbox is described by what each of its properties is initialised with: an object
  of the host realm (the extension's own global of that name), an object created for
  this call, or a constant.
\<close>

datatype binding = HostObject string | PerCallObject | Constant jsval

record ('c, 's) host =
  transpileModule :: "string \<Rightarrow> jsval + string"
    \<comment> \<open>\<open>ts.transpileModule(code, ...).outputText\<close>\<close>
  compileScript :: "string \<Rightarrow> jsval + unit"
    \<comment> \<open>\<open>new vm.Script(code)\<close>: throws a SyntaxError or succeeds\<close>
  compileInvocation :: "string \<Rightarrow> bool \<Rightarrow> jsval + unit"
    \<comment> \<open>\<open>new vm.Script\<close> of the invocation snippet with this function name and flag\<close>
  createContext :: "(string \<times> binding) list \<Rightarrow> 's \<Rightarrow> 'c \<times> 's"
    \<comment> \<open>\<open>vm.createContext(sandbox)\<close>\<close>
  runInContext :: "string \<Rightarrow> 'c \<Rightarrow> ('s, unit) js"
    \<comment> \<open>\<open>script.runInContext(context)\<close> for the compiled source of the function\<close>
  evalIn :: "'c \<Rightarrow> string \<times> nat \<Rightarrow> string \<Rightarrow> ('s, jsval) js"
    \<comment> \<open>the direct \<open>eval\<close> inside the callback of the snippet, which sees the
        parameters \<open>value\<close> and \<open>index\<close> of the callback\<close>
  sourceOf :: "'c \<Rightarrow> string \<Rightarrow> ('s, jsval) js"
    \<comment> \<open>evaluating the function name in the context and calling \<open>toString()\<close> on it\<close>
  includesOfNonString :: "jsval \<Rightarrow> ('s, bool) js"
    \<comment> \<open>\<open>funcStr.includes('...')\<close> as a condition, for a \<open>funcStr\<close> that is not a
        string\<close>
  callNamed :: "'c \<Rightarrow> string \<Rightarrow> jsval list \<Rightarrow> ('s, jsval) js"
    \<comment> \<open>the call expression: function name applied to the spread arguments\<close>
  callValue :: "'c \<Rightarrow> jsval \<Rightarrow> jsval list \<Rightarrow> ('s, jsval) js"
    \<comment> \<open>\<open>result(...testArgs)\<close>\<close>
  callToString :: "jsval \<Rightarrow> ('s, jsval) js"
    \<comment> \<open>\<open>result.toString()\<close> in \<open>serializeResult\<close>, for a function \<open>result\<close>: a call of
        the method that the function has or inherits, which may be code of the tested
        program\<close>
  previewOfNonString :: "jsval \<Rightarrow> ('s, jsval) js"
    \<comment> \<open>the conditional expression on \<open>funcStr.length\<close> in \<open>serializeResult\<close> for a
        \<open>funcStr\<close> that is not a string\<close>
  toNumber :: "string \<Rightarrow> number"
    \<comment> \<open>\<open>Number(text)\<close>\<close>
  jsonParse :: "string \<Rightarrow> jsval + jsval"
    \<comment> \<open>\<open>JSON.parse(text)\<close>\<close>
  jsonRoundTrip :: "jsval \<Rightarrow> jsval + jsval"
    \<comment> \<open>\<open>JSON.parse(JSON.stringify(v))\<close>\<close>
  toStringJS :: "jsval \<Rightarrow> jsval + string"
    \<comment> \<open>\<open>String(v)\<close>\<close>
  nullishError :: "jsval \<Rightarrow> jsval"
    \<comment> \<open>the TypeError raised by reading a property of \<open>undefined\<close> or \<open>null\<close>\<close>
  now :: "'s \<Rightarrow> int"
    \<comment> \<open>\<open>Date.now()\<close>\<close>
  hostEval :: "string \<times> string \<Rightarrow> string \<Rightarrow> ('s, jsval) js"
    \<comment> \<open>the direct \<open>eval\<close> inside \<open>parseArgumentValue\<close>, in the extension's own realm;
        it sees the parameters \<open>value\<close> and \<open>type\<close>\<close>
  dateValue :: "string \<Rightarrow> number"
    \<comment> \<open>\<open>new Date(text).getTime()\<close>\<close>
  newFunction :: "string \<Rightarrow> string \<Rightarrow> jsval + jsval"
    \<comment> \<open>\<open>new Function(params, body)\<close>\<close>

definition getNow :: "('c, 's) host \<Rightarrow> ('s, int) js" where
  "getNow h = (\<lambda>s. (Inr (now h s), s))"

subsection \<open>transpileTypeScript and createSandbox\<close>

definition transpileTypeScript :: "('c, 's) host \<Rightarrow> string \<Rightarrow> jsval + string" where
  "transpileTypeScript h code = transpileModule h code"

definition transpileTS :: "('c, 's) host \<Rightarrow> string \<Rightarrow> string" where
  \<comment> \<open>\<open>sandbox._transpileTS\<close>: the raw code when transpiling throws\<close>
  "transpileTS h code = (case transpileTypeScript h code of Inl e \<Rightarrow> code | Inr out \<Rightarrow> out)"

definition createSandbox :: "(string \<times> binding) list" where
  "createSandbox =
     [(''console'', PerCallObject),
      (''setTimeout'', HostObject ''setTimeout''),
      (''setInterval'', HostObject ''setInterval''),
      (''clearTimeout'', HostObject ''clearTimeout''),
      (''clearInterval'', HostObject ''clearInterval''),
      (''Promise'', HostObject ''Promise''),
      (''Array'', HostObject ''Array''),
      (''Object'', HostObject ''Object''),
      (''String'', HostObject ''String''),
      (''Number'', HostObject ''Number''),
      (''Boolean'', HostObject ''Boolean''),
      (''Date'', HostObject ''Date''),
      (''Math'', HostObject ''Math''),
      (''JSON'', HostObject ''JSON''),
      (''RegExp'', HostObject ''RegExp''),
      (''Set'', HostObject ''Set''),
      (''Map'', HostObject ''Map''),
      (''WeakMap'', HostObject ''WeakMap''),
      (''WeakSet'', HostObject ''WeakSet''),
      (''Symbol'', HostObject ''Symbol''),
      (''Error'', HostObject ''Error''),
      (''TypeError'', HostObject ''TypeError''),
      (''RangeError'', HostObject ''RangeError''),
      (''SyntaxError'', HostObject ''SyntaxError''),
      (''ReferenceError'', HostObject ''ReferenceError''),
      (''parseInt'', HostObject ''parseInt''),
      (''parseFloat'', HostObject ''parseFloat''),
      (''isNaN'', HostObject ''isNaN''),
      (''isFinite'', HostObject ''isFinite''),
      (''encodeURI'', HostObject ''encodeURI''),
      (''decodeURI'', HostObject ''decodeURI''),
      (''encodeURIComponent'', HostObject ''encodeURIComponent''),
      (''decodeURIComponent'', HostObject ''decodeURIComponent''),
      (''undefined'', Constant JUndefined),
      (''null'', Constant JNull),
      (''NaN'', Constant (JNum NaN)),
      (''Infinity'', Constant (JNum PosInfinity))]"

subsection \<open>Materialising the arguments inside the sandbox\<close>

definition doubleQuote :: string where
  "doubleQuote = [CHR 0x22]"

definition singleQuote :: string where
  "singleQuote = [CHR 0x27]"

definition dropOptionalSemicolon :: "string \<Rightarrow> string" where
  "dropOptionalSemicolon s = (if startsWith s '';'' then tl s else s)"

text \<open>
  The invocation snippet is written inside a template literal, so the text that
  \<open>vm.Script\<close> compiles is the cooked one: a backslash before \<open>s\<close>, \<open>.\<close>, \<open>(\<close> or \<open>)\<close>
  is dropped. The four regular expressions that clean the output of the compiler
  therefore run as \<open>/^"use strict";?s*/g\<close>, \<open>/^Object.defineProperty([^)]+);?s*/g\<close>,
  \<open>/^exports.__esModule[^;]+;?s*/g\<close> and \<open>/;s*$/g\<close>: \<open>s*\<close> matches letters \<open>s\<close> and not
  white space, \<open>.\<close> matches any code unit but a line terminator, and the parentheses
  form a group. Each of them matches at one place at most, so the flag \<open>g\<close> has no effect.
\<close>

definition dropLetterS :: "string \<Rightarrow> string" where
  \<comment> \<open>what is left after the longest match of \<open>s*\<close> at the start of the text\<close>
  "dropLetterS t = dropWhile (\<lambda>ch. ch = CHR ''s'') t"

definition anyCharThen :: "string \<Rightarrow> string \<Rightarrow> string option" where
  \<comment> \<open>\<open>.\<close> followed by the literal, at the start of the text: what follows the match\<close>
  "anyCharThen lit t =
     (case t of
        [] \<Rightarrow> None
      | ch # cs \<Rightarrow>
          if \<not> isLineTerminator ch \<and> startsWith cs lit then Some (drop (length lit) cs)
          else None)"

definition stripUseStrict :: "string \<Rightarrow> string" where
  \<comment> \<open>\<open>.replace(/^"use strict";?s*/g, '')\<close>\<close>
  "stripUseStrict s =
     (let p = doubleQuote @ ''use strict'' @ doubleQuote in
      if startsWith s p then dropLetterS (dropOptionalSemicolon (drop (length p) s))
      else s)"

definition stripDefineProperty :: "string \<Rightarrow> string" where
  \<comment> \<open>\<open>.replace(/^Object.defineProperty([^)]+);?s*/g, '')\<close>: the group takes every
      code unit up to the first \<open>)\<close>, so neither \<open>;?\<close> nor \<open>s*\<close> can match after it\<close>
  "stripDefineProperty s =
     (if startsWith s ''Object'' then
        (case anyCharThen ''defineProperty'' (drop (length ''Object'') s) of
           None \<Rightarrow> s
         | Some rest \<Rightarrow>
             (let inner = takeWhile (\<lambda>ch. ch \<noteq> CHR '')'') rest in
              if inner \<noteq> [] then drop (length inner) rest else s))
      else s)"

definition stripEsModule :: "string \<Rightarrow> string" where
  \<comment> \<open>\<open>.replace(/^exports.__esModule[^;]+;?s*/g, '')\<close>\<close>
  "stripEsModule s =
     (if startsWith s ''exports'' then
        (case anyCharThen ''__esModule'' (drop (length ''exports'') s) of
           None \<Rightarrow> s
         | Some rest \<Rightarrow>
             (let inner = takeWhile (\<lambda>ch. ch \<noteq> CHR '';'') rest in
              if inner \<noteq> []
              then dropLetterS (dropOptionalSemicolon (drop (length inner) rest))
              else s))
      else s)"

definition stripFinalSemicolon :: "string \<Rightarrow> string" where
  \<comment> \<open>\<open>.replace(/;s*$/g, '')\<close>: a semicolon with nothing but letters \<open>s\<close> between it
      and the end of the text\<close>
  "stripFinalSemicolon s =
     (let t = rev (dropLetterS (rev s)) in
      if t \<noteq> [] \<and> last t = CHR '';'' then butlast t else s)"

definition cleanTranspiled :: "string \<Rightarrow> string" where
  "cleanTranspiled transpiled =
     trim (stripFinalSemicolon (stripEsModule (stripDefineProperty (stripUseStrict transpiled))))"

definition carriesAnnotation :: "string \<Rightarrow> bool" where
  \<comment> \<open>\<open>text.includes(':') || text.includes('item is')\<close>\<close>
  "carriesAnnotation t = (includesStr t '':'' \<or> includesStr t ''item is'')"

definition jsonAttempt :: "('c, 's) host \<Rightarrow> string \<Rightarrow> jsval option" where
  \<comment> \<open>the guarded \<open>try { return JSON.parse(trimmed) } catch {}\<close>\<close>
  "jsonAttempt h trimmed =
     (if startsWith trimmed ''{'' \<or> startsWith trimmed ''[''
      then (case jsonParse h trimmed of Inr v \<Rightarrow> Some v | Inl e \<Rightarrow> None)
      else None)"

definition wrappedInQuotes :: "string \<Rightarrow> bool" where
  "wrappedInQuotes t =
     ((startsWith t doubleQuote \<and> endsWith t doubleQuote)
      \<or> (startsWith t singleQuote \<and> endsWith t singleQuote))"

definition afterEvalFailure :: "('c, 's) host \<Rightarrow> string \<Rightarrow> jsval" where
  \<comment> \<open>the statements of the callback after the \<open>try { eval } catch\<close>\<close>
  "afterEvalFailure h trimmed =
     (case jsonAttempt h trimmed of
        Some v \<Rightarrow> v
      | None \<Rightarrow>
          if trimmed = ''true'' then JBool True
          else if trimmed = ''false'' then JBool False
          else if trimmed = ''null'' then JNull
          else if trimmed = ''undefined'' then JUndefined
          else if trimmed = ''NaN'' then JNum NaN
          else if trimmed = ''Infinity'' then JNum PosInfinity
          else (let num = toNumber h trimmed in
                if num \<noteq> NaN then JNum num
                else if wrappedInQuotes trimmed then JStr (slice_1_neg1 trimmed)
                else JStr trimmed))"

definition materialize :: "('c, 's) host \<Rightarrow> 'c \<Rightarrow> string \<Rightarrow> nat \<Rightarrow> ('s, jsval) js" where
  \<comment> \<open>the callback \<open>(value, index) => ...\<close> of \<open>_argsData.map\<close>\<close>
  "materialize h c v index =
     (let trimmed = trim v in
      if trimmed = [] then returns JUndefined
      else
        (let codeToEval =
               (if carriesAnnotation trimmed then cleanTranspiled (transpileTS h trimmed)
                else trimmed)
         in tryCatch (evalIn h c (v, index) (''('' @ codeToEval @ '')''))
              (\<lambda>evalError. returns (afterEvalFailure h trimmed))))"

subsection \<open>The invocation snippet\<close>

definition callArguments :: "bool \<Rightarrow> jsval list \<Rightarrow> jsval list" where
  \<comment> \<open>the argument list of the call, in the two branches on \<open>hasRestParams\<close>\<close>
  "callArguments hasRestParams parsedArgs =
     (if hasRestParams \<and> length parsedArgs = 1 \<and> isArray (hd parsedArgs)
      then elementsOf (hd parsedArgs)
      else parsedArgs)"

definition parseTestArg :: "('c, 's) host \<Rightarrow> string \<Rightarrow> jsval" where
  "parseTestArg h arg =
     (let trimmed = trim arg; num = toNumber h trimmed in
      if num \<noteq> NaN then JNum num
      else (case jsonParse h trimmed of Inr v \<Rightarrow> v | Inl e \<Rightarrow> JStr trimmed))"

definition parseTestArgs :: "('c, 's) host \<Rightarrow> string \<Rightarrow> jsval list" where
  \<comment> \<open>\<open>_testArgsStr.split(',').map(...)\<close>\<close>
  "parseTestArgs h testArgsStr = map (parseTestArg h) (split testArgsStr CHR '','')"

definition followUp :: "('c, 's) host \<Rightarrow> 'c \<Rightarrow> bool \<Rightarrow> string \<Rightarrow> jsval \<Rightarrow> ('s, jsval) js" where
  \<comment> \<open>step 3 of the snippet\<close>
  "followUp h c isAsyncFlag testArgsStr res =
     (if typeofFunction res \<and> testArgsStr \<noteq> [] \<and> trim testArgsStr \<noteq> []
      then awaitIf isAsyncFlag (callValue h c res (parseTestArgs h testArgsStr))
      else returns res)"

definition hasRestParams :: "('c, 's) host \<Rightarrow> jsval \<Rightarrow> ('s, bool) js" where
  \<comment> \<open>\<open>funcStr.includes('...')\<close>, as the condition of the \<open>if\<close> reads it\<close>
  "hasRestParams h funcStr =
     (case funcStr of
        JStr text \<Rightarrow> returns (includesStr text ''...'')
      | _ \<Rightarrow> includesOfNonString h funcStr)"

definition sandboxRun ::
  "('c, 's) host \<Rightarrow> 'c \<Rightarrow> string list \<Rightarrow> string \<Rightarrow> bool \<Rightarrow> string \<Rightarrow> ('s, jsval) js" where
  "sandboxRun h c argsData functionName isAsyncFlag testArgsStr =
     andThen (mapJS (materialize h c) argsData) (\<lambda>parsedArgs.
     andThen (sourceOf h c functionName) (\<lambda>funcStr.
     andThen (hasRestParams h funcStr) (\<lambda>rest.
     andThen (awaitIf isAsyncFlag
                (callNamed h c functionName (callArguments rest parsedArgs)))
       (followUp h c isAsyncFlag testArgsStr))))"

subsection \<open>serializeResult and executeFunction\<close>

text \<open>
  For a function, \<open>serializeResult\<close> calls \<open>result.toString()\<close>. This is a call like any
  other: the function may have a \<open>toString\<close> of its own, which may throw or return a
  value that is not a string. The test \<open>result instanceof Error\<close> is made in the realm of
  the extension.
\<close>

definition sourcePreview :: "string \<Rightarrow> string" where
  \<comment> \<open>\<open>funcStr.length > 150 ? funcStr.substring(0, 150) + '...' : funcStr\<close> for a
      string\<close>
  "sourcePreview funcStr = (if length funcStr > 150 then take 150 funcStr @ ''...'' else funcStr)"

definition serializeResult :: "('c, 's) host \<Rightarrow> jsval \<Rightarrow> ('s, jsval) js" where
  "serializeResult h res =
     (case res of
        JUndefined \<Rightarrow> returns (JStr ''undefined'')
      | JNull \<Rightarrow> returns (JStr ''null'')
      | JFunction i src \<Rightarrow>
          andThen (callToString h res) (\<lambda>funcStr.
          andThen (case funcStr of
                     JStr text \<Rightarrow> returns (JStr (sourcePreview text))
                   | _ \<Rightarrow> previewOfNonString h funcStr) (\<lambda>source.
          returns (JObject
            [(''_type'', JStr ''function''),
             (''_hint'', JMessage ReturnedFunctionHint),
             (''_source'', source),
             (''_suggestion'', JMessage WrapperSuggestion)])))
      | JError n m st \<Rightarrow>
          returns (JObject [(''type'', JStr ''Error''), (''message'', JStr m), (''stack'', JStr st)])
      | _ \<Rightarrow>
          if typeofObject res
          then completes
                 (case jsonRoundTrip h res of
                    Inr v \<Rightarrow> Inr v
                  | Inl e \<Rightarrow> (case toStringJS h res of Inl e' \<Rightarrow> Inl e' | Inr s \<Rightarrow> Inr (JStr s)))
          else returns res)"

record ExecutionResult =
  success :: bool
  result :: "jsval option"
  error :: "jsval option"
  executionTime :: "int option"

definition messageOf :: "('c, 's) host \<Rightarrow> jsval \<Rightarrow> jsval + jsval" where
  \<comment> \<open>\<open>error.message\<close>\<close>
  "messageOf h e =
     (case e of
        JUndefined \<Rightarrow> Inl (nullishError h e)
      | JNull \<Rightarrow> Inl (nullishError h e)
      | JError n m st \<Rightarrow> Inr (JStr m)
      | JContextError n m st \<Rightarrow> Inr (JStr m)
      | JObject ps \<Rightarrow> Inr (case map_of ps ''message'' of Some v \<Rightarrow> v | None \<Rightarrow> JUndefined)
      | _ \<Rightarrow> Inr JUndefined)"

definition failedOutcome :: "('c, 's) host \<Rightarrow> int \<Rightarrow> jsval \<Rightarrow> ('s, ExecutionResult) js" where
  \<comment> \<open>the \<open>catch (error)\<close> block of \<open>executeFunction\<close>\<close>
  "failedOutcome h startTime e =
     andThen (completes (messageOf h e)) (\<lambda>m.
     andThen (if truthy m then returns m
              else andThen (completes (toStringJS h e)) (\<lambda>s. returns (JStr s))) (\<lambda>msg.
     andThen (getNow h) (\<lambda>t.
     returns \<lparr>success = False, result = None, error = Some msg,
              executionTime = Some (t - startTime)\<rparr>)))"

definition sandboxFor :: "string list \<Rightarrow> string \<Rightarrow> string \<Rightarrow> (string \<times> binding) list" where
  \<comment> \<open>the sandbox of one call: \<open>createSandbox()\<close> and the four properties set on it\<close>
  "sandboxFor argsData testArgsStr functionName =
     createSandbox @
       [(''_transpileTS'', PerCallObject),
        (''_argsData'', Constant (JArray (map JStr argsData))),
        (''_testArgsStr'', Constant (JStr testArgsStr)),
        (''_functionName'', Constant (JStr functionName))]"

definition runToResult ::
  "('c, 's) host \<Rightarrow> string \<Rightarrow> string \<Rightarrow> (string \<times> string) list \<Rightarrow> bool \<Rightarrow> string option
     \<Rightarrow> ('s, jsval) js" where
  \<comment> \<open>the \<open>try\<close> block up to and including \<open>result = await result\<close>\<close>
  "runToResult h functionCode functionName argsWithTypes isAsyncFlag testArgs =
     (let argsData = map fst argsWithTypes;
          testArgsStr = (case testArgs of None \<Rightarrow> [] | Some t \<Rightarrow> t) in
      andThen (completes (transpileTypeScript h functionCode)) (\<lambda>jsCode.
      andThen (completes (compileScript h jsCode)) (\<lambda>script.
      andThen (\<lambda>s. case createContext h (sandboxFor argsData testArgsStr functionName) s of
                     (c, s') \<Rightarrow> (Inr c, s')) (\<lambda>c.
      andThen (runInContext h jsCode c) (\<lambda>u.
      andThen (completes (compileInvocation h functionName isAsyncFlag)) (\<lambda>executionScript.
      andThen (sandboxRun h c argsData functionName isAsyncFlag testArgsStr) (\<lambda>r.
      completes (awaitValue r))))))))"

definition executeFunction ::
  "('c, 's) host \<Rightarrow> string \<Rightarrow> string \<Rightarrow> (string \<times> string) list \<Rightarrow> bool \<Rightarrow> string option
     \<Rightarrow> ('s, ExecutionResult) js" where
  "executeFunction h functionCode functionName argsWithTypes isAsyncFlag testArgs =
     (\<lambda>s. let startTime = now h s in
       tryCatch
         (andThen (runToResult h functionCode functionName argsWithTypes isAsyncFlag testArgs)
            (\<lambda>res.
          andThen (getNow h) (\<lambda>t.
          andThen (serializeResult h res) (\<lambda>serialized.
          returns \<lparr>success = True, result = Some serialized, error = None,
                   executionTime = Some (t - startTime)\<rparr>))))
         (failedOutcome h startTime) s)"

subsection \<open>A host for the examples\<close>

text \<open>
  \<open>demoHost\<close> gives the behaviour of the TypeScript compiler and of Node on the texts
  that occur in the examples below, and throws on every other text. Its heap state
  records the clock, the function objects created so far (the identity of a function is
  its index), the sandbox of each context created so far (a context handle is its
  index), and the properties that programs have stored on objects of the host realm.

  The example programs and argument texts:
  \<^item> \<open>function createMultiplier(factor){return x=>x*factor}\<close>;
  \<^item> \<open>function f() { throw null; }\<close> and \<open>function g() { throw new Error("boom"); }\<close>;
  \<^item> \<open>function maxOf(arr) { return Math.max(...arr); }\<close>;
  \<^item> \<open>function leak() { Math.secret = 42; return 1; }\<close> and
    \<open>function peek() { return Math.secret; }\<close>;
  \<^item> \<open>function shy() { const g = () => 1; g.toString = () => { throw new Error("no source"); }; return g; }\<close>;
  \<^item> the argument texts \<open>5\<close>, \<open>[1,2,3]\<close> and the five literals;
  \<^item> the argument text \<open>(x: number) => x * 2\<close>, which the compiler prints as
    \<open>(x) => x * 2;\<close> and a line feed;
  \<^item> the argument text \<open>function id(x) { return x as any }\<close>, which is TypeScript and
    not JavaScript: the compiler prints it as \<open>function id(x) { return x; }\<close> and a line
    feed.
\<close>

datatype closure = MultiplyBy real | Identity | ToStringThrows

record heap =
  clock :: int
  closures :: "closure list"
  contexts :: "(string \<times> binding) list list"
  hostProperties :: "(string \<times> string \<times> jsval) list"

definition emptyHeap :: heap where
  "emptyHeap = \<lparr>clock = 1000, closures = [], contexts = [], hostProperties = []\<rparr>"

definition multiplierSource :: string where
  "multiplierSource = ''function createMultiplier(factor){return x=>x*factor}''"

definition multiplierCompiled :: string where
  "multiplierCompiled = ''function createMultiplier(factor) { return x => x * factor; }''"

definition throwNullSource :: string where
  "throwNullSource = ''function f() { throw null; }''"

definition throwErrorSource :: string where
  "throwErrorSource =
     ''function g() { throw new Error('' @ doubleQuote @ ''boom'' @ doubleQuote @ ''); }''"

definition maxOfSource :: string where
  "maxOfSource = ''function maxOf(arr) { return Math.max(...arr); }''"

definition leakSource :: string where
  "leakSource = ''function leak() { Math.secret = 42; return 1; }''"

definition peekSource :: string where
  "peekSource = ''function peek() { return Math.secret; }''"

definition shySource :: string where
  "shySource =
     ''function shy() { const g = () => 1; g.toString = () => { throw new Error(''
       @ doubleQuote @ ''no source'' @ doubleQuote @ ''); }; return g; }''"

definition syntaxError :: jsval where
  "syntaxError = JError ''SyntaxError'' ''Unexpected token'' []"

definition contextSyntaxError :: jsval where
  "contextSyntaxError = JContextError ''SyntaxError'' ''Unexpected token'' []"

definition notIterable :: jsval where
  "notIterable =
     JContextError ''TypeError''
       ''Spread syntax requires ...iterable[Symbol.iterator] to be a function'' []"

definition outsideExamples :: jsval where
  "outsideExamples = JError ''Error'' ''outside the examples'' []"

definition demoTranspile :: "string \<Rightarrow> jsval + string" where
  "demoTranspile code =
     (if code = ''function id(x) { return x as any }''
      then Inr (''function id(x) { return x; }'' @ [CHR 0x0A])
      else if code = ''(x: number) => x * 2'' then Inr (''(x) => x * 2;'' @ [CHR 0x0A])
      else if code = ''const _tempFunc = (x: number) => x * 2;''
      then Inr (''const _tempFunc = (x) => x * 2;'' @ [CHR 0x0A])
      else if code = multiplierSource then Inr (multiplierCompiled @ [CHR 0x0A])
      else Inr (code @ [CHR 0x0A]))"

definition demoEval :: "jsval \<Rightarrow> string \<Rightarrow> (heap, jsval) js" where
  \<comment> \<open>\<open>eval\<close>, with the error that it throws on a text outside the examples\<close>
  "demoEval failure text = (\<lambda>s.
     if text = ''(5)'' then (Inr (JNum (Finite 5)), s)
     else if text = ''([1,2,3])''
     then (Inr (JArray [JNum (Finite 1), JNum (Finite 2), JNum (Finite 3)]), s)
     else if text = ''(true)'' then (Inr (JBool True), s)
     else if text = ''(false)'' then (Inr (JBool False), s)
     else if text = ''(null)'' then (Inr JNull, s)
     else if text = ''(undefined)'' then (Inr JUndefined, s)
     else if text = ''(NaN)'' then (Inr (JNum NaN), s)
     else if text = ''(function id(x) { return x; })''
     then (Inr (JFunction (length (closures s)) ''function id(x) { return x; }''),
           s\<lparr>closures := closures s @ [Identity]\<rparr>)
     else if text = ''((x) => x * 2)''
     then (Inr (JFunction (length (closures s)) ''(x) => x * 2''),
           s\<lparr>closures := closures s @ [MultiplyBy 2]\<rparr>)
     else (Inl failure, s))"

definition demoSourceOf :: "string \<Rightarrow> jsval + jsval" where
  "demoSourceOf functionName =
     (if functionName = ''createMultiplier'' then Inr (JStr multiplierCompiled)
      else if functionName = ''f'' then Inr (JStr throwNullSource)
      else if functionName = ''g'' then Inr (JStr throwErrorSource)
      else if functionName = ''maxOf'' then Inr (JStr maxOfSource)
      else if functionName = ''leak'' then Inr (JStr leakSource)
      else if functionName = ''peek'' then Inr (JStr peekSource)
      else if functionName = ''shy'' then Inr (JStr shySource)
      else Inl (JContextError ''ReferenceError'' (functionName @ '' is not defined'') []))"

fun finiteValues :: "jsval list \<Rightarrow> real list option" where
  "finiteValues [] = Some []"
| "finiteValues (JNum (Finite x) # vs) =
     (case finiteValues vs of Some xs \<Rightarrow> Some (x # xs) | None \<Rightarrow> None)"
| "finiteValues (v # vs) = None"

definition resolveGlobal :: "heap \<Rightarrow> nat \<Rightarrow> string \<Rightarrow> binding option" where
  \<comment> \<open>what a global name of the context was initialised with\<close>
  "resolveGlobal s c x = (if c < length (contexts s) then map_of (contexts s ! c) x else None)"

fun lookupProperty :: "(string \<times> string \<times> jsval) list \<Rightarrow> string \<Rightarrow> string \<Rightarrow> jsval" where
  "lookupProperty [] obj prop = JUndefined"
| "lookupProperty ((obj', prop', v) # ps) obj prop =
     (if obj' = obj \<and> prop' = prop then v else lookupProperty ps obj prop)"

fun firstNumber :: "jsval list \<Rightarrow> real option" where
  \<comment> \<open>the first argument, when it is a finite number\<close>
  "firstNumber (JNum (Finite x) # rest) = Some x"
| "firstNumber args = None"

definition demoMaxOf :: "jsval list \<Rightarrow> jsval + jsval" where
  \<comment> \<open>the body of \<open>maxOf\<close>: \<open>Math.max\<close> of the spread first argument\<close>
  "demoMaxOf args =
     (case args of
        JArray (v # vs) # rest \<Rightarrow>
          (case finiteValues (v # vs) of
             Some (x # xs) \<Rightarrow> Inr (JNum (Finite (fold max xs x)))
           | _ \<Rightarrow> Inl outsideExamples)
      | JNum n # rest \<Rightarrow> Inl notIterable
      | _ \<Rightarrow> Inl outsideExamples)"

definition demoCallNamed :: "nat \<Rightarrow> string \<Rightarrow> jsval list \<Rightarrow> (heap, jsval) js" where
  "demoCallNamed c functionName args = (\<lambda>s0.
     let s = s0\<lparr>clock := clock s0 + 1\<rparr> in
     if functionName = ''createMultiplier'' then
       (case firstNumber args of
          Some x \<Rightarrow>
            (Inr (JFunction (length (closures s)) ''x => x * factor''),
             s\<lparr>closures := closures s @ [MultiplyBy x]\<rparr>)
        | None \<Rightarrow> (Inl outsideExamples, s))
     else if functionName = ''f'' then (Inl JNull, s)
     else if functionName = ''g'' then (Inl (JError ''Error'' ''boom'' []), s)
     else if functionName = ''maxOf'' then (demoMaxOf args, s)
     else if functionName = ''leak'' then
       (case resolveGlobal s c ''Math'' of
          Some (HostObject obj) \<Rightarrow>
            (Inr (JNum (Finite 1)),
             s\<lparr>hostProperties := (obj, ''secret'', JNum (Finite 42)) # hostProperties s\<rparr>)
        | _ \<Rightarrow> (Inl outsideExamples, s))
     else if functionName = ''peek'' then
       (case resolveGlobal s c ''Math'' of
          Some (HostObject obj) \<Rightarrow> (Inr (lookupProperty (hostProperties s) obj ''secret''), s)
        | _ \<Rightarrow> (Inl outsideExamples, s))
     else if functionName = ''shy'' then
       (Inr (JFunction (length (closures s)) ''() => 1''),
        s\<lparr>closures := closures s @ [ToStringThrows]\<rparr>)
     else (Inl (JContextError ''ReferenceError'' (functionName @ '' is not defined'') []), s))"

fun functionOf :: "jsval \<Rightarrow> (nat \<times> string) option" where
  \<comment> \<open>identity and source text of a function value\<close>
  "functionOf (JFunction i src) = Some (i, src)"
| "functionOf v = None"

definition demoApply :: "closure \<Rightarrow> jsval list \<Rightarrow> jsval + jsval" where
  \<comment> \<open>the call of one of the function objects of the examples\<close>
  "demoApply f args =
     (case f of
        MultiplyBy factor \<Rightarrow>
          (case firstNumber args of
             Some x \<Rightarrow> Inr (JNum (Finite (x * factor)))
           | None \<Rightarrow> Inl outsideExamples)
      | Identity \<Rightarrow> Inr (case args of [] \<Rightarrow> JUndefined | x # rest \<Rightarrow> x)
      | ToStringThrows \<Rightarrow> Inr (JNum (Finite 1)))"

definition demoCallValue :: "nat \<Rightarrow> jsval \<Rightarrow> jsval list \<Rightarrow> (heap, jsval) js" where
  "demoCallValue c f args = (\<lambda>s0.
     let s = s0\<lparr>clock := clock s0 + 1\<rparr> in
     case functionOf f of
       Some (i, src) \<Rightarrow>
         (if i < length (closures s) then (demoApply (closures s ! i) args, s)
          else (Inl outsideExamples, s))
     | None \<Rightarrow> (Inl (JContextError ''TypeError'' ''result is not a function'' []), s))"

definition demoCallToString :: "jsval \<Rightarrow> (heap, jsval) js" where
  "demoCallToString v = (\<lambda>s.
     case functionOf v of
       Some (i, src) \<Rightarrow>
         (if i < length (closures s) \<and> closures s ! i = ToStringThrows
          then (Inl (JError ''Error'' ''no source'' []), s)
          else (Inr (JStr src), s))
     | None \<Rightarrow> (Inl outsideExamples, s))"

definition isDigit :: "char \<Rightarrow> bool" where
  "isDigit ch = (48 \<le> (of_char ch :: nat) \<and> (of_char ch :: nat) \<le> 57)"

definition demoToNumber :: "string \<Rightarrow> number" where
  \<comment> \<open>\<open>Number(text)\<close> for a text of decimal digits, and for a text that is no numeric literal\<close>
  "demoToNumber text =
     (if list_all isDigit text
      then Finite (real (foldl (\<lambda>a ch. 10 * a + (of_char ch - 48)) (0::nat) text))
      else NaN)"

definition demoJsonParse :: "string \<Rightarrow> jsval + jsval" where
  "demoJsonParse text =
     (if text = ''[1,2,3]'' then Inr (JArray [JNum (Finite 1), JNum (Finite 2), JNum (Finite 3)])
      else Inl syntaxError)"

definition demoHost :: "(nat, heap) host" where
  "demoHost =
     \<lparr>transpileModule = demoTranspile,
      compileScript = (\<lambda>code. Inr ()),
      compileInvocation = (\<lambda>functionName isAsyncFlag. Inr ()),
      createContext = (\<lambda>sandbox s. (length (contexts s), s\<lparr>contexts := contexts s @ [sandbox]\<rparr>)),
      runInContext = (\<lambda>code c. returns ()),
      evalIn = (\<lambda>c locals text. demoEval contextSyntaxError text),
      sourceOf = (\<lambda>c functionName. completes (demoSourceOf functionName)),
      includesOfNonString = (\<lambda>v. completes (Inl outsideExamples)),
      callNamed = demoCallNamed,
      callValue = demoCallValue,
      callToString = demoCallToString,
      previewOfNonString = (\<lambda>v. completes (Inl outsideExamples)),
      toNumber = demoToNumber,
      jsonParse = demoJsonParse,
      jsonRoundTrip = (\<lambda>v. Inr v),
      toStringJS = (\<lambda>v. case v of JStr t \<Rightarrow> Inr t | _ \<Rightarrow> Inl outsideExamples),
      nullishError = (\<lambda>v. JError ''TypeError''
         (''Cannot read properties of null (reading '' @ singleQuote @ ''message'' @ singleQuote @ '')'')
         []),
      now = clock,
      hostEval = (\<lambda>locals text. demoEval syntaxError text),
      dateValue = (\<lambda>text. NaN),
      newFunction = (\<lambda>params body. Inl syntaxError)\<rparr>"

subsection \<open>Notions used to state the properties of the engine\<close>

text \<open>
  The precedence chain of the specification: an ordered list of heuristics, each of which
  either produces a value or declines, tried in order until the first one produces a
  value, with a fallback value when all decline. An attempt may change the heap (an
  evaluated text may have effects) but does not throw.
\<close>

type_synonym 's attempt = "'s \<Rightarrow> jsval option \<times> 's"

fun firstMatch :: "'s attempt list \<Rightarrow> jsval \<Rightarrow> 's \<Rightarrow> jsval \<times> 's" where
  "firstMatch [] fallback s = (fallback, s)"
| "firstMatch (a # as) fallback s =
     (case a s of (Some v, s') \<Rightarrow> (v, s') | (None, s') \<Rightarrow> firstMatch as fallback s')"

definition pureAttempt :: "jsval option \<Rightarrow> 's attempt" where
  "pureAttempt r = (\<lambda>s. (r, s))"

definition blankAttempt :: "string \<Rightarrow> jsval option" where
  "blankAttempt t = (if t = [] then Some JUndefined else None)"

definition evalAttempt :: "('c, 's) host \<Rightarrow> 'c \<Rightarrow> string \<times> nat \<Rightarrow> string \<Rightarrow> 's attempt" where
  "evalAttempt h c locals code =
     (\<lambda>s. case evalIn h c locals (''('' @ code @ '')'') s of
             (Inr v, s') \<Rightarrow> (Some v, s')
           | (Inl e, s') \<Rightarrow> (None, s'))"

definition keywordAttempt :: "string \<Rightarrow> jsval option" where
  "keywordAttempt t =
     (if t = ''true'' then Some (JBool True)
      else if t = ''false'' then Some (JBool False)
      else if t = ''null'' then Some JNull
      else if t = ''undefined'' then Some JUndefined
      else if t = ''NaN'' then Some (JNum NaN)
      else if t = ''Infinity'' then Some (JNum PosInfinity)
      else None)"

definition numericAttempt :: "('c, 's) host \<Rightarrow> string \<Rightarrow> jsval option" where
  "numericAttempt h t = (if toNumber h t \<noteq> NaN then Some (JNum (toNumber h t)) else None)"

definition quotedAttempt :: "string \<Rightarrow> jsval option" where
  "quotedAttempt t = (if wrappedInQuotes t then Some (JStr (slice_1_neg1 t)) else None)"

definition precedenceChain ::
  "bool \<Rightarrow> ('c, 's) host \<Rightarrow> 'c \<Rightarrow> string \<Rightarrow> nat \<Rightarrow> 's \<Rightarrow> jsval \<times> 's" where
  \<comment> \<open>the flag says whether the text is taken to carry an annotation\<close>
  "precedenceChain annotated h c raw index =
     (let t = trim raw in
      firstMatch
        [pureAttempt (blankAttempt t),
         evalAttempt h c (raw, index) (if annotated then cleanTranspiled (transpileTS h t) else t),
         pureAttempt (jsonAttempt h t),
         pureAttempt (keywordAttempt t),
         pureAttempt (numericAttempt h t),
         pureAttempt (quotedAttempt t)]
        (JStr t))"









section \<open>The standalone coercion (parseArgumentValue)\<close>

subsection \<open>The regular expressions\<close>










subsection \<open>parseArgumentValue\<close>















subsection \<open>Notions used to state the properties of the coercion\<close>



subsection \<open>Notions used to state the isolation of the contexts\<close>






section \<open>Properties of the signature extractor\<close>

lemma pushDeclarations_step:
  "(case declInitializer d of
      None \<Rightarrow> fs
    | Some OtherExpression \<Rightarrow> fs
    | Some _ \<Rightarrow> (case extractFunctionFromVariable d of
                  Some funcInfo \<Rightarrow> fs @ [funcInfo]
                | None \<Rightarrow> fs))
   = fs @ (case extractFunctionFromVariable d of None \<Rightarrow> [] | Some funcInfo \<Rightarrow> [funcInfo])"
proof (cases "declInitializer d")
  case None
  then show ?thesis by (simp add: extractFunctionFromVariable_def)
next
  case (Some i)
  then show ?thesis by (cases i) (simp_all add: extractFunctionFromVariable_def)
qed

lemma pushDeclarations_append:
  "pushDeclarations ds fs = fs @ List.map_filter extractFunctionFromVariable ds"
proof (induction ds arbitrary: fs)
  case Nil
  show ?case by (simp add: List.map_filter_simps)
next
  case (Cons d ds)
  have "pushDeclarations (d # ds) fs =
        pushDeclarations ds
          (fs @ (case extractFunctionFromVariable d of None \<Rightarrow> [] | Some funcInfo \<Rightarrow> [funcInfo]))"
    by (simp only: pushDeclarations.simps pushDeclarations_step)
  also have "\<dots> = fs @ List.map_filter extractFunctionFromVariable (d # ds)"
    by (simp add: Cons.IH List.map_filter_simps split: option.splits)
  finally show ?case .
qed

lemma pushMethods_append:
  "pushMethods ms cn fs =
     fs @ map (\<lambda>(nm, sg, msp). extractMethodInfo nm sg msp cn) (methodsOf ms)"
  by (induction ms cn fs rule: pushMethods.induct) simp_all

lemma visit_Node:
  "visit (Node k sp children) fs = forEachChild children (fs @ own k sp)"
  by (simp add: own_def pushDeclarations_append pushMethods_append
           split: syntaxKind.splits option.splits)

lemma forEachChild_append_aux:
  assumes "\<And>c fs. c \<in> set cs \<Longrightarrow> visit c fs = fs @ visit c []"
  shows "forEachChild cs fs = fs @ forEachChild cs []"
  using assms
proof (induction cs arbitrary: fs)
  case Nil
  show ?case by simp
next
  case (Cons c cs)
  have step: "\<And>gs. forEachChild cs gs = gs @ forEachChild cs []"
    by (rule Cons.IH) (rule Cons.prems, simp)
  have vc: "visit c fs = fs @ visit c []"
    by (rule Cons.prems) simp
  have "forEachChild (c # cs) fs = visit c fs @ forEachChild cs []"
    using step[of "visit c fs"] by simp
  also have "\<dots> = fs @ (visit c [] @ forEachChild cs [])"
    by (simp only: vc append_assoc)
  also have "visit c [] @ forEachChild cs [] = forEachChild (c # cs) []"
    using step[of "visit c []"] by simp
  finally show ?case .
qed

lemma visit_append: "visit n fs = fs @ visit n []"
proof (induction n arbitrary: fs)
  case (Node k sp children)
  have ch: "\<And>gs. forEachChild children gs = gs @ forEachChild children []"
    by (rule forEachChild_append_aux) (rule Node.IH)
  show ?case
    unfolding visit_Node using ch[of "fs @ own k sp"] ch[of "[] @ own k sp"] by simp
qed

lemma forEachChild_append: "forEachChild cs fs = fs @ forEachChild cs []"
  by (rule forEachChild_append_aux) (rule visit_append)

lemma visit_preorder:
  "visit n [] = concat (map ownOf (preorder n))"
  "forEachChild ns [] = concat (map ownOf (preorderList ns))"
proof (induction n and ns rule: preorder_preorderList.induct)
  case (1 k sp children)
  have "visit (Node k sp children) [] = forEachChild children (own k sp)"
    by (simp only: visit_Node append_Nil)
  also have "\<dots> = own k sp @ forEachChild children []"
    by (rule forEachChild_append)
  also have "\<dots> = own k sp @ concat (map ownOf (preorderList children))"
    by (simp only: 1)
  finally show ?case by (simp only: preorder.simps list.map concat.simps ownOf.simps)
next
  case 2
  show ?case by simp
next
  case (3 c cs)
  have "forEachChild (c # cs) [] = forEachChild cs (visit c [])" by simp
  also have "\<dots> = visit c [] @ forEachChild cs []" by (rule forEachChild_append)
  also have "\<dots> = concat (map ownOf (preorder c)) @ concat (map ownOf (preorderList cs))"
    by (simp only: 3)
  finally show ?case by simp
qed

lemma parseFunctions_preorder:
  "parseFunctions createSourceFile sourceCode fileName =
     concat (map ownOf (preorder (root (createSourceFile
        (fileNameOrDefault fileName) sourceCode))))"
  by (simp only: parseFunctions_def visit_preorder)

lemma ownOf_recognized:
  "\<not> isClassDeclaration n \<Longrightarrow> ownOf n = recognized n"
  by (cases n rule: isClassDeclaration.cases)
     (auto simp: own_def split: syntaxKind.splits option.splits)

lemma extractFunctionFromVariable_None:
  "(extractFunctionFromVariable d = None) = (\<not> functionValued d)"
  by (cases d rule: functionValued.cases) (simp_all add: extractFunctionFromVariable_def)

lemma length_map_filter_functionValued:
  "length (List.map_filter extractFunctionFromVariable ds) = length (filter functionValued ds)"
proof (induction ds)
  case Nil
  show ?case by (simp add: List.map_filter_simps)
next
  case (Cons d ds)
  show ?case
  proof (cases "extractFunctionFromVariable d")
    case None
    then have "\<not> functionValued d" by (simp add: extractFunctionFromVariable_None)
    with None Cons show ?thesis by (simp add: List.map_filter_simps)
  next
    case (Some fi)
    then have "functionValued d" using extractFunctionFromVariable_None[of d] by simp
    with Some Cons show ?thesis by (simp add: List.map_filter_simps)
  qed
qed

lemma length_recognized: "length (recognized n) = recognizedCount n"
  by (cases n rule: recognized.cases) (simp_all add: length_map_filter_functionValued)

lemma map_filter_not_functionValued:
  "\<not> list_ex functionValued ds \<Longrightarrow> List.map_filter extractFunctionFromVariable ds = []"
proof (induction ds)
  case Nil
  show ?case by (simp add: List.map_filter_simps)
next
  case (Cons d ds)
  then have "extractFunctionFromVariable d = None"
    by (simp add: extractFunctionFromVariable_None)
  with Cons show ?case by (simp add: List.map_filter_simps)
qed

lemma recognized_functionDeclarationInfo:
  "\<not> bindsFunction n \<Longrightarrow>
   recognized n = (case functionDeclarationInfo n of None \<Rightarrow> [] | Some info \<Rightarrow> [info])"
  by (cases n rule: recognized.cases) (simp_all add: map_filter_not_functionValued)

lemma concat_recognized_map_filter:
  "\<not> list_ex bindsFunction ns \<Longrightarrow>
   concat (map recognized ns) = List.map_filter functionDeclarationInfo ns"
proof (induction ns)
  case Nil
  show ?case by (simp add: List.map_filter_simps)
next
  case (Cons n ns)
  then have "\<not> bindsFunction n" "\<not> list_ex bindsFunction ns" by simp_all
  with Cons.IH show ?case
    by (simp add: recognized_functionDeclarationInfo List.map_filter_simps split: option.splits)
qed

text \<open>
  Claim C6, as the code has it. \<open>visit\<close> descends into every child of every node, so
  it collects the recognisable function declarations at every depth, not only the
  top-level ones. For every source text whose tree has no class declaration,
  \<open>parseFunctions\<close> returns exactly one descriptor for each recognisable function
  declaration of the whole tree (named function declarations, and variables bound to an
  arrow function or a function expression); their number is the number of such
  declarations. The order is the order of the traversal: node after node in pre-order,
  where a variable statement contributes all its function-valued declarations at once,
  before anything that is nested in their initialisers. When no variable statement of the
  tree binds a function, this is the document order of the function declarations; with
  variable statements it need not be.
\<close>

theorem C6_descriptors_in_traversal_order:
  assumes "\<not> containsClass (root (createSourceFile
              (fileNameOrDefault fileName) sourceCode))"
  shows "parseFunctions createSourceFile sourceCode fileName =
           concat (map recognized (preorder (root (createSourceFile
              (fileNameOrDefault fileName) sourceCode))))
       \<and> length (parseFunctions createSourceFile sourceCode fileName) =
           sum_list (map recognizedCount (preorder (root (createSourceFile
              (fileNameOrDefault fileName) sourceCode))))
       \<and> (\<not> list_ex bindsFunction (preorder (root (createSourceFile
              (fileNameOrDefault fileName) sourceCode))) \<longrightarrow>
            parseFunctions createSourceFile sourceCode fileName =
              List.map_filter functionDeclarationInfo (preorder (root (createSourceFile
                (fileNameOrDefault fileName) sourceCode))))"
proof -
  let ?ns = "preorder (root (createSourceFile
              (fileNameOrDefault fileName) sourceCode))"
  have "\<forall>n \<in> set ?ns. \<not> isClassDeclaration n"
    using assms by (simp add: containsClass_def list_ex_iff)
  then have "map ownOf ?ns = map recognized ?ns"
    by (simp add: ownOf_recognized)
  then have eq: "parseFunctions createSourceFile sourceCode fileName = concat (map recognized ?ns)"
    by (simp only: parseFunctions_preorder)
  have len: "length (concat (map recognized ?ns)) = sum_list (map recognizedCount ?ns)"
    by (simp add: length_concat comp_def length_recognized)
  have doc: "\<not> list_ex bindsFunction ?ns \<longrightarrow>
               concat (map recognized ?ns) = List.map_filter functionDeclarationInfo ?ns"
    by (rule impI) (rule concat_recognized_map_filter)
  from eq len doc show ?thesis by simp
qed

text \<open>
  The theorem at the text \<open>function outer() { function inner() {} }\<close>, which has no
  variable statement, and at a variable statement with two declarations, the first of
  which contains the function declaration \<open>inner\<close>.
\<close>

theorem C6_witness:
  "\<not> containsClass (root (nestedParser ''temp.ts'' nestedSource))
   \<and> \<not> list_ex bindsFunction (preorder (root (nestedParser ''temp.ts'' nestedSource)))
   \<and> map name (parseFunctions nestedParser nestedSource None) = [''outer'', ''inner'']
   \<and> length (parseFunctions nestedParser nestedSource None) = 2
   \<and> \<not> containsClass (root (orderParser ''temp.ts'' orderSource))
   \<and> map name (parseFunctions orderParser orderSource None) = [''a'', ''b'', ''inner'']"
proof -
  have h: "\<not> containsClass (root (nestedParser
              (fileNameOrDefault None) nestedSource))"
    by (simp add: containsClass_def nestedParser_def nestedRoot_def leaf_def fileNameOrDefault_def)
  have b: "\<not> list_ex bindsFunction (preorder (root (nestedParser
              (fileNameOrDefault None) nestedSource)))"
    by (simp add: nestedParser_def nestedRoot_def leaf_def fileNameOrDefault_def)
  have o: "\<not> containsClass (root (orderParser
              (fileNameOrDefault None) orderSource))"
    by (simp add: containsClass_def orderParser_def orderRoot_def leaf_def fileNameOrDefault_def)
  have n: "parseFunctions nestedParser nestedSource None =
             List.map_filter functionDeclarationInfo
               (preorder (root (nestedParser (fileNameOrDefault None) nestedSource)))"
    using h b C6_descriptors_in_traversal_order[of nestedParser None nestedSource] by blast
  have r: "parseFunctions orderParser orderSource None =
             concat (map recognized
               (preorder (root (orderParser (fileNameOrDefault None) orderSource))))"
    using o C6_descriptors_in_traversal_order[of orderParser None orderSource] by blast
  have 1: "map name (parseFunctions nestedParser nestedSource None) = [''outer'', ''inner'']"
    unfolding n
    by (simp add: nestedParser_def nestedRoot_def leaf_def extractFunctionInfo_def
          fileNameOrDefault_def List.map_filter_simps)
  have 2: "map name (parseFunctions orderParser orderSource None) = [''a'', ''b'', ''inner'']"
    unfolding r
    by (simp add: orderParser_def orderRoot_def leaf_def extractFunctionInfo_def
          extractFunctionFromVariable_def fileNameOrDefault_def List.map_filter_simps)
  from 1 have "length (map name (parseFunctions nestedParser nestedSource None)) = 2"
    by simp
  then have 3: "length (parseFunctions nestedParser nestedSource None) = 2"
    by simp
  from h b o 1 2 3 show ?thesis by (simp add: fileNameOrDefault_def)
qed

text \<open>
  Claim C6 as stated fails, in the number and in the order. The text
  \<open>function outer() { function inner() {} }\<close> has one top-level function declaration
  and no class, and two descriptors are returned. For the four lines
  \<open>const a = () => {\<close>, \<open>function inner() {}\<close>, \<open>},\<close>, \<open>b = () => {};\<close> the descriptors
  come as \<open>a\<close>, \<open>b\<close>, \<open>inner\<close>, which start on the lines 1, 4 and 2.
\<close>

theorem C6_counterexample:
  "\<not> containsClass (root (nestedParser ''temp.ts'' nestedSource))
   \<and> length (topLevelFunctionDeclarations (root (nestedParser ''temp.ts'' nestedSource))) = 1
   \<and> map name (parseFunctions nestedParser nestedSource None) = [''outer'', ''inner'']
   \<and> \<not> containsClass (root (orderParser ''temp.ts'' orderSource))
   \<and> map name (parseFunctions orderParser orderSource None) = [''a'', ''b'', ''inner'']
   \<and> map startLine (parseFunctions orderParser orderSource None) = [1, 4, 2]"
  by (simp add: containsClass_def nestedParser_def nestedRoot_def leaf_def
        orderParser_def orderRoot_def extractFunctionFromVariable_def
        topLevelFunctionDeclarations_def parseFunctions_def extractFunctionInfo_def
        fileNameOrDefault_def)


lemma length_methodsOf: "length (methodsOf ms) = length (filter isMethodDeclaration ms)"
  by (induction ms rule: methodsOf.induct) simp_all

lemma concat_map_split:
  assumes "n \<in> set ns"
  shows "\<exists>before after. concat (map f ns) = before @ f n @ after"
proof -
  from assms obtain xs ys where "ns = xs @ n # ys" by (auto dest: split_list)
  then have "concat (map f ns) = concat (map f xs) @ f n @ concat (map f ys)" by simp
  then show ?thesis by blast
qed

text \<open>
  Claim C7, for a class declaration that has a name. Wherever such a class with M method
  declarations occurs in the tree, the result contains, next to each other, one
  descriptor for the class (flagged \<open>isClass\<close>, named after the class, with the class
  name as return type and the parameters of the first constructor, or none when no
  constructor is declared) and then the M descriptors of its methods in the order of the
  members, each named \<open>ClassName.method\<close> and carrying \<open>className\<close>.
\<close>

theorem C7_named_class_constructor_then_methods:
  assumes "Node (ClassDeclaration (Some cn) members) sp children
             \<in> set (preorder (root (createSourceFile (fileNameOrDefault fileName) sourceCode)))"
  shows "(\<exists>before after.
            parseFunctions createSourceFile sourceCode fileName =
              before @ extractClassInfo members cn sp
                # map (\<lambda>(nm, sg, msp). extractMethodInfo nm sg msp cn) (methodsOf members) @ after)
       \<and> length (methodsOf members) = length (filter isMethodDeclaration members)
       \<and> isClass (extractClassInfo members cn sp) = Some True
       \<and> name (extractClassInfo members cn sp) = cn
       \<and> returnType (extractClassInfo members cn sp) = cn
       \<and> parameters (extractClassInfo members cn sp) =
            (case findConstructor members of None \<Rightarrow> [] | Some ps \<Rightarrow> map parameterInfo ps)
       \<and> (\<forall>(nm, sg, msp) \<in> set (methodsOf members).
            name (extractMethodInfo nm sg msp cn) = cn @ ''.'' @ nm
          \<and> className (extractMethodInfo nm sg msp cn) = Some cn
          \<and> isClass (extractMethodInfo nm sg msp cn) = None)"
proof -
  let ?c = "Node (ClassDeclaration (Some cn) members) sp children"
  have "\<exists>before after.
          concat (map ownOf (preorder (root (createSourceFile (fileNameOrDefault fileName) sourceCode))))
            = before @ ownOf ?c @ after"
    using assms by (rule concat_map_split)
  then have block: "\<exists>before after.
            parseFunctions createSourceFile sourceCode fileName =
              before @ extractClassInfo members cn sp
                # map (\<lambda>(nm, sg, msp). extractMethodInfo nm sg msp cn) (methodsOf members) @ after"
    by (simp add: parseFunctions_preorder own_def)
  have fields: "isClass (extractClassInfo members cn sp) = Some True
       \<and> name (extractClassInfo members cn sp) = cn
       \<and> returnType (extractClassInfo members cn sp) = cn
       \<and> parameters (extractClassInfo members cn sp) =
            (case findConstructor members of None \<Rightarrow> [] | Some ps \<Rightarrow> map parameterInfo ps)"
    by (simp add: extractClassInfo_def split: option.splits)
  have methods: "\<forall>(nm, sg, msp) \<in> set (methodsOf members).
            name (extractMethodInfo nm sg msp cn) = cn @ ''.'' @ nm
          \<and> className (extractMethodInfo nm sg msp cn) = Some cn
          \<and> isClass (extractMethodInfo nm sg msp cn) = None"
    by (simp add: extractMethodInfo_def split: prod.splits)
  from block fields methods length_methodsOf[of members] show ?thesis by blast
qed

text \<open>The theorem at a class \<open>User\<close> with a constructor and one method.\<close>

theorem C7_witness:
  "userClass \<in> set (preorder (root (userParser (fileNameOrDefault None) userSource)))
   \<and> map name (parseFunctions userParser userSource None) = [''User'', ''User.greet'']
   \<and> map isClass (parseFunctions userParser userSource None) = [Some True, None]
   \<and> map className (parseFunctions userParser userSource None) = [None, Some ''User'']"
proof -
  have h: "Node (ClassDeclaration (Some ''User'') userMembers) (Span userSource 0 0)
             (childrenOf userClass)
           \<in> set (preorder (root (userParser (fileNameOrDefault None) userSource)))"
    by (simp add: userParser_def userClass_def leaf_def)
  have r: "parseFunctions userParser userSource None =
             [extractClassInfo userMembers ''User'' (Span userSource 0 0),
              extractMethodInfo ''greet'' (Signature [] (Some ''string'') [])
                (Span ''greet(): string { return this.id; }'' 0 0) ''User'']"
    by (simp add: parseFunctions_def userParser_def userClass_def leaf_def userMembers_def)
  from C7_named_class_constructor_then_methods[where createSourceFile = userParser
      and fileName = None and sourceCode = userSource, OF h]
  have "name (extractClassInfo userMembers ''User'' (Span userSource 0 0)) = ''User''
      \<and> isClass (extractClassInfo userMembers ''User'' (Span userSource 0 0)) = Some True"
    by blast
  with h r show ?thesis
    by (simp add: userClass_def extractMethodInfo_def extractClassInfo_def)
qed

text \<open>
  Claim C7 as stated fails for a class declaration without a name: the branch of
  \<open>visit\<close> is guarded by \<open>node.name\<close>, and nothing is emitted for
  \<open>export default class { constructor(a) {} m() {} }\<close>.
\<close>

theorem C7_counterexample:
  "Node (ClassDeclaration None anonymousMembers) (Span anonymousSource 0 0)
       (childrenOf (hd (childrenOf anonymousRoot)))
     \<in> set (preorder (root (anonymousParser (fileNameOrDefault None) anonymousSource)))
   \<and> findConstructor anonymousMembers = Some [ParameterDeclaration ''a'' None False]
   \<and> length (filter isMethodDeclaration anonymousMembers) = 1
   \<and> parseFunctions anonymousParser anonymousSource None = []"
  by (simp add: anonymousParser_def anonymousRoot_def anonymousMembers_def leaf_def
        parseFunctions_def)

text \<open>
  Claim C2, as the code has it. Extraction has no failure of its own: it fails exactly
  when the call of the parser throws, and then with what the parser has thrown. Whenever
  the parser returns a source file, whatever diagnostics it reports for the text, the
  result is the list of the descriptors that the nodes of the recovered tree contribute,
  node after node in pre-order.
\<close>

theorem C2_extract_fails_only_when_the_parser_throws:
  "extractOutcome createSourceFile sourceCode fileName =
     (case createSourceFile (fileNameOrDefault fileName) sourceCode of
        Inl thrown \<Rightarrow> Inl thrown
      | Inr sourceFile \<Rightarrow> Inr (concat (map ownOf (preorder (root sourceFile)))))
   \<and> extractOutcome (\<lambda>f text. Inr \<lparr>root = tree, parseDiagnostics = diagnostics\<rparr>)
        sourceCode fileName
      = Inr (concat (map ownOf (preorder tree)))
   \<and> extractOutcome (\<lambda>f text. Inr (parse f text)) sourceCode fileName
      = Inr (parseFunctions parse sourceCode fileName)"
  by (simp add: extractOutcome_def parseFunctions_def visit_preorder split: sum.splits)

text \<open>
  Claim C2 as stated fails: for the text \<open>function add(a, b) { return a + b; } )\<close>
  the compiler reports a syntax error, and extraction returns the descriptor of \<open>add\<close>
  instead of a failure.
\<close>

theorem C2_counterexample:
  "cannotBeParsed (strayParser (fileNameOrDefault None) straySource)
   \<and> extractOutcome (\<lambda>f text. Inr (strayParser f text)) straySource None =
       Inr [\<lparr>name = ''add'',
             parameters = [\<lparr>paramName = ''a'', paramType = ''any'', optional = False\<rparr>,
                           \<lparr>paramName = ''b'', paramType = ''any'', optional = False\<rparr>],
             returnType = ''any'', startLine = 1, endLine = 1,
             fullText = ''function add(a, b) { return a + b; }'',
             isAsync = False, isClass = None, className = None\<rparr>]"
  by (simp add: cannotBeParsed_def strayParser_def strayRoot_def leaf_def extractOutcome_def
        extractFunctionInfo_def extractParameters_def parameterInfo_def
        extractReturnType_def hasAsync_def)
section \<open>Properties of the execution engine\<close>

lemmas js_defs = returns_def completes_def andThen_def tryCatch_def awaitIf_def getNow_def

lemmas chain_defs = precedenceChain_def pureAttempt_def blankAttempt_def evalAttempt_def
  keywordAttempt_def numericAttempt_def quotedAttempt_def












lemma demoHost_fields:
  "transpileModule demoHost = demoTranspile"
  "compileScript demoHost = (\<lambda>code. Inr ())"
  "compileInvocation demoHost = (\<lambda>functionName isAsyncFlag. Inr ())"
  "createContext demoHost = (\<lambda>sandbox s. (length (contexts s), s\<lparr>contexts := contexts s @ [sandbox]\<rparr>))"
  "runInContext demoHost = (\<lambda>code c. returns ())"
  "evalIn demoHost = (\<lambda>c locals text. demoEval contextSyntaxError text)"
  "hostEval demoHost = (\<lambda>locals text. demoEval syntaxError text)"
  "dateValue demoHost = (\<lambda>text. NaN)"
  "newFunction demoHost = (\<lambda>params body. Inl syntaxError)"
  "sourceOf demoHost = (\<lambda>c functionName. completes (demoSourceOf functionName))"
  "includesOfNonString demoHost = (\<lambda>v. completes (Inl outsideExamples))"
  "callNamed demoHost = demoCallNamed"
  "callValue demoHost = demoCallValue"
  "callToString demoHost = demoCallToString"
  "previewOfNonString demoHost = (\<lambda>v. completes (Inl outsideExamples))"
  "toNumber demoHost = demoToNumber"
  "jsonParse demoHost = demoJsonParse"
  "jsonRoundTrip demoHost = (\<lambda>v. Inr v)"
  "now demoHost = clock"
  "nullishError demoHost = (\<lambda>v. JError ''TypeError''
         (''Cannot read properties of null (reading '' @ singleQuote @ ''message'' @ singleQuote @ '')'')
         [])"
  "toStringJS demoHost = (\<lambda>v. case v of JStr t \<Rightarrow> Inr t | _ \<Rightarrow> Inl outsideExamples)"
  by (simp_all add: demoHost_def)








lemmas demo_texts = multiplierSource_def multiplierCompiled_def throwNullSource_def
  throwErrorSource_def maxOfSource_def leakSource_def peekSource_def shySource_def
  syntaxError_def contextSyntaxError_def notIterable_def outsideExamples_def emptyHeap_def

lemmas run_defs = executeFunction_def runToResult_def sandboxRun_def followUp_def
  hasRestParams_def mapJS_def materialize_def afterEvalFailure_def jsonAttempt_def
  carriesAnnotation_def callArguments_def parseTestArgs_def parseTestArg_def
  serializeResult_def sourcePreview_def failedOutcome_def
  messageOf_def transpileTypeScript_def transpileTS_def
  typeofFunction_def typeofObject_def isArray_def elementsOf_def truthy_def awaitValue_def
  trim_def isWhiteSpace_def startsWith_def endsWith_def wrappedInQuotes_def
  demoHost_fields demoTranspile_def demoEval_def demoSourceOf_def demoCallNamed_def
  demoCallValue_def demoCallToString_def demoMaxOf_def demoApply_def demoToNumber_def
  demoJsonParse_def isDigit_def resolveGlobal_def

text \<open>
  Claim C1 at a function that throws. For \<open>function g() { throw new Error("boom"); }\<close>
  the call returns the failed outcome with the message. For
  \<open>function f() { throw null; }\<close> the \<open>catch\<close> block itself throws, on reading
  \<open>error.message\<close> of \<open>null\<close>, and the call raises that TypeError instead of returning
  an outcome.
\<close>

theorem C1_thrown_null_is_not_converted:
  "fst (executeFunction demoHost throwErrorSource ''g'' [] False None emptyHeap)
     = Inr \<lparr>success = False, result = None, error = Some (JStr ''boom''),
            executionTime = Some 1\<rparr>
   \<and> fst (executeFunction demoHost throwNullSource ''f'' [] False None emptyHeap)
     = Inl (JError ''TypeError''
         (''Cannot read properties of null (reading '' @ singleQuote @ ''message'' @ singleQuote @ '')'')
         [])"
  by (simp add: run_defs js_defs demo_texts)

text \<open>
  Claim C4 at \<open>function maxOf(arr) { return Math.max(...arr); }\<close>, whose only
  parameter is not a rest parameter, with the single argument \<open>[1,2,3]\<close>. The text of
  the function contains \<open>...\<close>, so \<open>hasRestParams\<close> is true and the array is spread:
  the function is called with three arguments and fails, while the call with the array
  as one positional argument returns 3.
\<close>

theorem C4_spread_without_rest_parameter:
  "includesStr maxOfSource ''...''
   \<and> callArguments (includesStr maxOfSource ''...'')
        [JArray [JNum (Finite 1), JNum (Finite 2), JNum (Finite 3)]]
     = [JNum (Finite 1), JNum (Finite 2), JNum (Finite 3)]
   \<and> fst (executeFunction demoHost maxOfSource ''maxOf'' [(''[1,2,3]'', ''number[]'')] False None
          emptyHeap)
     = Inr \<lparr>success = False, result = None,
            error = Some (JStr ''Spread syntax requires ...iterable[Symbol.iterator] to be a function''),
            executionTime = Some 1\<rparr>
   \<and> fst (callNamed demoHost 0 ''maxOf''
            [JArray [JNum (Finite 1), JNum (Finite 2), JNum (Finite 3)]] emptyHeap)
     = Inr (JNum (Finite 3))"
  by (simp add: run_defs js_defs demo_texts)


































































end
